theory Spec2Isabelle
  imports Complex_Main
begin

section \<open>Numbers and arrays\<close>

text \<open>
  The program is JavaScript. Its numbers are IEEE doubles; this development reads them as
  mathematical reals, so every statement below is about the exact arithmetic the code
  writes down, not about rounding.

  A division by zero is \<open>0\<close> in HOL and \<open>NaN\<close> or an infinity in the program, so the
  quotients whose divisor can be zero at a call of the program are not written with \<open>/\<close>:
  the ratio of volatility to price in \<open>detectMarketRegime\<close> and the two ratios of
  \<open>analyzeMicroStructure\<close> are values of \<open>js_number\<close>, computed by \<open>js_div\<close> and compared by
  \<open>js_gt\<close> and \<open>js_lt\<close> (every comparison with \<open>NaN\<close> is false). Zero is read as \<open>+0\<close>.
  The remaining quotients divide by a period, positive at every call of the program (14,
  50, 20, 12, 26, 9), by a length that is at least 10, or by a number tested non-zero
  just before; the one exception is \<open>momentumSignal\<close>, which divides by the previous
  close: the composite signal of the model is the program's where that close is not \<open>0\<close>,
  and no theorem below evaluates it elsewhere.

  \<open>null\<close> and \<open>undefined\<close> are both \<open>None\<close>: an array of numbers that may hold \<open>null\<close> is a
  \<open>real option list\<close>, and reading an array past its end (which yields \<open>undefined\<close>) is
  \<open>None\<close> as well. The one strict comparison with \<open>null\<close> in the program
  (\<open>ma14Now === null\<close>) reads an index inside its array, where the two cannot be confused.
\<close>

datatype js_number = Num real | NaN | PosInfinity | NegInfinity

definition js_div :: "real \<Rightarrow> real \<Rightarrow> js_number" where
  "js_div a b =
     (if b \<noteq> 0 then Num (a / b)
      else if a = 0 then NaN
      else if 0 < a then PosInfinity
      else NegInfinity)"

definition js_gt :: "js_number \<Rightarrow> real \<Rightarrow> bool" where
  "js_gt x c = (case x of Num v \<Rightarrow> v > c | PosInfinity \<Rightarrow> True | _ \<Rightarrow> False)"

definition js_lt :: "js_number \<Rightarrow> real \<Rightarrow> bool" where
  "js_lt x c = (case x of Num v \<Rightarrow> v < c | NegInfinity \<Rightarrow> True | _ \<Rightarrow> False)"

definition elem_at :: "'a option list \<Rightarrow> nat \<Rightarrow> 'a option" where
  "elem_at xs i = (if i < length xs then xs ! i else None)"

text \<open>JavaScript truthiness of a nullable number: \<open>null\<close>, \<open>undefined\<close> and \<open>0\<close> are falsy.\<close>

definition truthy :: "real option \<Rightarrow> bool" where
  "truthy v = (case v of None \<Rightarrow> False | Some x \<Rightarrow> x \<noteq> 0)"

section \<open>Data model\<close>

record candle =
  epoch :: int
  c_open :: real
  high :: real
  low :: real
  close :: real

record tick =
  t_epoch :: int
  quote :: real

record band =
  upper :: "real option"
  middle :: "real option"
  lower :: "real option"

record macd =
  macdLine :: "real list"
  signalLine :: "real list"
  histogram :: "real list"

section \<open>Indicator library (candles.js)\<close>

text \<open>\<open>calcMA\<close>: one output per input index; \<open>null\<close> while \<open>i < period - 1\<close>, then the mean of
  \<open>values.slice(i - period + 1, i + 1)\<close>.\<close>

definition calcMA :: "real list \<Rightarrow> nat \<Rightarrow> real option list" where
  "calcMA values period =
     map (\<lambda>i. if i + 1 < period then None
              else Some (sum_list (take period (drop (i + 1 - period) values)) / real period))
         [0..<length values]"

text \<open>\<open>calcEMA\<close>: seeded with \<open>values[0]\<close>, then \<open>values[i] * k + res[i - 1] * (1 - k)\<close>.\<close>

fun ema_loop :: "real \<Rightarrow> real \<Rightarrow> real list \<Rightarrow> real list" where
  "ema_loop k prev [] = []"
| "ema_loop k prev (v # vs) = (let e = v * k + prev * (1 - k) in e # ema_loop k e vs)"

fun calcEMA :: "real list \<Rightarrow> nat \<Rightarrow> real list" where
  "calcEMA [] period = []"
| "calcEMA (v # vs) period = v # ema_loop (2 / (real period + 1)) v vs"

text \<open>\<open>calcRSI\<close>: gains and losses of consecutive values, a simple mean over the first
  \<open>period\<close> of them, Wilder smoothing afterwards.\<close>

fun diffs :: "real list \<Rightarrow> real list" where
  "diffs (a # b # vs) = (b - a) # diffs (b # vs)"
| "diffs _ = []"

definition gains :: "real list \<Rightarrow> real list" where
  "gains values = map (\<lambda>d. max 0 d) (diffs values)"

definition losses :: "real list \<Rightarrow> real list" where
  "losses values = map (\<lambda>d. max 0 (- d)) (diffs values)"

definition rsi_value :: "real \<Rightarrow> real \<Rightarrow> real" where
  "rsi_value avgGain avgLoss =
     (if avgLoss = 0 then 100 else 100 - 100 / (1 + avgGain / avgLoss))"

fun rsi_loop :: "nat \<Rightarrow> real \<Rightarrow> real \<Rightarrow> real list \<Rightarrow> real list \<Rightarrow> real option list" where
  "rsi_loop period avgGain avgLoss (g # gs) (l # ls) =
     (let avgGain' = (avgGain * (real period - 1) + g) / real period;
          avgLoss' = (avgLoss * (real period - 1) + l) / real period
      in Some (rsi_value avgGain' avgLoss') # rsi_loop period avgGain' avgLoss' gs ls)"
| "rsi_loop period avgGain avgLoss _ _ = []"

definition calcRSI :: "real list \<Rightarrow> nat \<Rightarrow> real option list" where
  "calcRSI values period =
     (if length values \<le> period then replicate (length values) None
      else
        let avgGain = sum_list (take period (gains values)) / real period;
            avgLoss = sum_list (take period (losses values)) / real period
        in replicate period None @ Some (rsi_value avgGain avgLoss)
             # rsi_loop period avgGain avgLoss (drop period (gains values))
                 (drop period (losses values)))"

text \<open>\<open>calcBollinger\<close>: rolling mean and population standard deviation.\<close>

definition calcBollinger :: "real list \<Rightarrow> nat \<Rightarrow> real \<Rightarrow> band list" where
  "calcBollinger values period mult =
     map (\<lambda>i. if i + 1 < period then \<lparr>upper = None, middle = None, lower = None\<rparr>
              else
                let slice = take period (drop (i + 1 - period) values);
                    mean = sum_list slice / real period;
                    variance = sum_list (map (\<lambda>b. (b - mean)\<^sup>2) slice) / real period;
                    std = sqrt variance
                in \<lparr>upper = Some (mean + mult * std), middle = Some mean,
                    lower = Some (mean - mult * std)\<rparr>)
         [0..<length values]"

text \<open>\<open>calcVolatility\<close>: the standard deviation of the last \<open>period\<close> closes, \<open>0\<close> when there are
  fewer.\<close>

definition calcVolatility :: "real list \<Rightarrow> nat \<Rightarrow> real" where
  "calcVolatility closes period =
     (if length closes < period then 0
      else
        let slice = drop (length closes - period) closes;
            mean = sum_list slice / real period;
            variance = sum_list (map (\<lambda>b. (b - mean)\<^sup>2) slice) / real period
        in sqrt variance)"

text \<open>\<open>calcMACD\<close> with its default periods as parameters.\<close>

definition calcMACD :: "real list \<Rightarrow> nat \<Rightarrow> nat \<Rightarrow> nat \<Rightarrow> macd" where
  "calcMACD values fastPeriod slowPeriod signalPeriod =
     (let emaFast = calcEMA values fastPeriod;
          emaSlow = calcEMA values slowPeriod;
          ml = map (\<lambda>i. emaFast ! i - emaSlow ! i) [0..<length emaFast];
          sl = calcEMA ml signalPeriod;
          hist = map (\<lambda>i. ml ! i - sl ! i) [0..<length ml]
      in \<lparr>macdLine = ml, signalLine = sl, histogram = hist\<rparr>)"

text \<open>\<open>calcATR\<close>: the true ranges from index 1 on; the output starts as \<open>[null]\<close>, receives the
  mean of the first \<open>period\<close> true ranges, and then one smoothed value for each further true
  range.\<close>

definition trueRange :: "candle \<Rightarrow> candle \<Rightarrow> real" where
  "trueRange prev c =
     max (max (high c - low c) \<bar>high c - close prev\<bar>) \<bar>low c - close prev\<bar>"

fun trueRanges :: "candle list \<Rightarrow> real list" where
  "trueRanges (p # c # cs) = trueRange p c # trueRanges (c # cs)"
| "trueRanges _ = []"

fun atr_loop :: "nat \<Rightarrow> real \<Rightarrow> real list \<Rightarrow> real option list" where
  "atr_loop period prev [] = []"
| "atr_loop period prev (t # ts) =
     (let a = (prev * (real period - 1) + t) / real period
      in Some a # atr_loop period a ts)"

definition calcATR :: "candle list \<Rightarrow> nat \<Rightarrow> real option list" where
  "calcATR candles period =
     (if length candles < period + 1 then replicate (length candles) None
      else
        let tr = trueRanges candles;
            first = sum_list (take period tr) / real period
        in None # Some first # atr_loop period first (drop period tr))"

section \<open>Market regime (candles.js)\<close>

datatype regime_type =
  STRONG_UPTREND | STRONG_DOWNTREND | UPTREND | DOWNTREND | HIGH_VOLATILITY
  | CONSOLIDATION | NEUTRAL | INSUFFICIENT_DATA | UNKNOWN

text \<open>The regime object. \<open>r_atr\<close> is \<open>None\<close> where the object has no \<open>atr\<close> key (the
  insufficient-data regime and the initial regime of main.js) or where the key holds
  \<open>null\<close>.\<close>

record regime =
  r_type :: regime_type
  r_volatility :: js_number
  r_trend :: real
  r_confidence :: real
  r_atr :: "real option"

definition trendStrengthOf :: "real option \<Rightarrow> real option \<Rightarrow> real" where
  "trendStrengthOf ma20Current ma50Current =
     (case ma20Current of
        None \<Rightarrow> 0
      | Some a \<Rightarrow>
          (case ma50Current of
             None \<Rightarrow> 0
           | Some b \<Rightarrow> if a \<noteq> 0 \<and> b \<noteq> 0 then (a - b) / b else 0))"

definition classifyRegime :: "real \<Rightarrow> js_number \<Rightarrow> regime_type \<times> real" where
  "classifyRegime trendStrength volPercentage =
     (let isHighVol = js_gt volPercentage 0.01;
          isLowVol = js_lt volPercentage 0.003
      in if \<bar>trendStrength\<bar> > 0.02 \<and> \<not> isLowVol
           then (if trendStrength > 0 then STRONG_UPTREND else STRONG_DOWNTREND, 0.85)
         else if \<bar>trendStrength\<bar> > 0.01
           then (if trendStrength > 0 then UPTREND else DOWNTREND, 0.7)
         else if isHighVol then (HIGH_VOLATILITY, 0.6)
         else if isLowVol then (CONSOLIDATION, 0.65)
         else (NEUTRAL, 0.5))"

definition detectMarketRegime :: "candle list \<Rightarrow> regime" where
  "detectMarketRegime candles =
     (if length candles < 50
      then \<lparr>r_type = INSUFFICIENT_DATA, r_volatility = Num 0, r_trend = 0, r_confidence = 0,
            r_atr = None\<rparr>
      else
        let closes = map close candles;
            volatility = calcVolatility closes 20;
            ma20 = calcMA closes 20;
            ma50 = calcMA closes 50;
            atr = calcATR candles 14;
            currentPrice = closes ! (length closes - 1);
            ma20Current = elem_at ma20 (length ma20 - 1);
            ma50Current = elem_at ma50 (length ma50 - 1);
            atrCurrent = elem_at atr (length atr - 1);
            trendStrength = trendStrengthOf ma20Current ma50Current;
            volPercentage = js_div volatility currentPrice;
            (regimeType, confidence) = classifyRegime trendStrength volPercentage
        in \<lparr>r_type = regimeType, r_volatility = volPercentage, r_trend = trendStrength,
            r_confidence = confidence, r_atr = atrCurrent\<rparr>)"

section \<open>Adaptive indicator weights (candles.js)\<close>

record weights =
  w_ma :: real
  w_rsi :: real
  w_bb :: real
  w_momentum :: real
  w_volume :: real

text \<open>The \<open>switch\<close> on the regime type: three cases assign four of the five keys of the
  process-wide object in place; the default replaces the whole object.\<close>

definition regimeTable :: "regime_type \<Rightarrow> weights \<Rightarrow> weights" where
  "regimeTable t w =
     (if t = STRONG_UPTREND \<or> t = STRONG_DOWNTREND
        then w\<lparr>w_ma := 1.3, w_momentum := 1.4, w_rsi := 0.8, w_bb := 0.9\<rparr>
      else if t = HIGH_VOLATILITY
        then w\<lparr>w_bb := 1.5, w_rsi := 1.2, w_ma := 0.7, w_momentum := 1.1\<rparr>
      else if t = CONSOLIDATION
        then w\<lparr>w_bb := 1.3, w_rsi := 1.4, w_ma := 0.6, w_momentum := 0.5\<rparr>
      else \<lparr>w_ma = 1.0, w_rsi = 1.0, w_bb = 1.0, w_momentum = 1.0, w_volume = 1.0\<rparr>)"

text \<open>\<open>Object.keys(indicatorWeights).forEach(k => indicatorWeights[k] *= f)\<close>.\<close>

definition scaleWeights :: "real \<Rightarrow> weights \<Rightarrow> weights" where
  "scaleWeights f w =
     \<lparr>w_ma = w_ma w * f, w_rsi = w_rsi w * f, w_bb = w_bb w * f,
      w_momentum = w_momentum w * f, w_volume = w_volume w * f\<rparr>"

text \<open>\<open>updateIndicatorWeights\<close>: the first argument is the process-wide \<open>indicatorWeights\<close>
  before the call, the result is that object after it.\<close>

definition updateIndicatorWeights :: "weights \<Rightarrow> regime \<Rightarrow> real \<Rightarrow> weights" where
  "updateIndicatorWeights w rg winRate =
     (let w1 = regimeTable (r_type rg) w
      in if winRate > 0.65 then scaleWeights 1.1 w1
         else if winRate < 0.45 then scaleWeights 0.85 w1
         else w1)"

section \<open>Candlestick patterns and micro-structure (candles.js)\<close>

datatype pattern_name =
  NONE | DOJI | HAMMER | SHOOTING_STAR | BULLISH_ENGULFING | BEARISH_ENGULFING
  | THREE_WHITE_SOLDIERS | THREE_BLACK_CROWS

datatype pattern_signal =
  NEUTRAL_SIGNAL | REVERSAL_PENDING | BULLISH | BEARISH | STRONG_BULLISH | STRONG_BEARISH

record pattern =
  p_pattern :: pattern_name
  strength :: real
  signal :: pattern_signal

definition identifyCandlestickPattern :: "candle list \<Rightarrow> pattern" where
  "identifyCandlestickPattern candles =
     (if length candles < 3 then \<lparr>p_pattern = NONE, strength = 0, signal = NEUTRAL_SIGNAL\<rparr>
      else
        let c1 = candles ! (length candles - 3);
            c2 = candles ! (length candles - 2);
            c3 = candles ! (length candles - 1);
            body2 = \<bar>close c2 - c_open c2\<bar>;
            body3 = \<bar>close c3 - c_open c3\<bar>;
            upperWick3 = high c3 - max (c_open c3) (close c3);
            lowerWick3 = min (c_open c3) (close c3) - low c3;
            bodyRange3 = high c3 - low c3
        in if body3 < bodyRange3 * 0.1 \<and> bodyRange3 > 0
             then \<lparr>p_pattern = DOJI, strength = 0.7, signal = REVERSAL_PENDING\<rparr>
           else if lowerWick3 > body3 * 2 \<and> upperWick3 < body3 * 0.3 \<and> close c3 > c_open c3
             then \<lparr>p_pattern = HAMMER, strength = 0.8, signal = BULLISH\<rparr>
           else if upperWick3 > body3 * 2 \<and> lowerWick3 < body3 * 0.3 \<and> close c3 < c_open c3
             then \<lparr>p_pattern = SHOOTING_STAR, strength = 0.8, signal = BEARISH\<rparr>
           else if close c2 < c_open c2 \<and> close c3 > c_open c3 \<and> c_open c3 < close c2
                   \<and> close c3 > c_open c2 \<and> body3 > body2 * 1.2
             then \<lparr>p_pattern = BULLISH_ENGULFING, strength = 0.85, signal = BULLISH\<rparr>
           else if close c2 > c_open c2 \<and> close c3 < c_open c3 \<and> c_open c3 > close c2
                   \<and> close c3 < c_open c2 \<and> body3 > body2 * 1.2
             then \<lparr>p_pattern = BEARISH_ENGULFING, strength = 0.85, signal = BEARISH\<rparr>
           else if close c1 > c_open c1 \<and> close c2 > c_open c2 \<and> close c3 > c_open c3
                   \<and> close c2 > close c1 \<and> close c3 > close c2
             then \<lparr>p_pattern = THREE_WHITE_SOLDIERS, strength = 0.9, signal = STRONG_BULLISH\<rparr>
           else if close c1 < c_open c1 \<and> close c2 < c_open c2 \<and> close c3 < c_open c3
                   \<and> close c2 < close c1 \<and> close c3 < close c2
             then \<lparr>p_pattern = THREE_BLACK_CROWS, strength = 0.9, signal = STRONG_BEARISH\<rparr>
           else \<lparr>p_pattern = NONE, strength = 0, signal = NEUTRAL_SIGNAL\<rparr>)"

datatype prediction_name =
  UNCERTAIN | BULLISH_CONTINUATION | BEARISH_CONTINUATION | CONSOLIDATION_LIKELY
  | DOJI_FORMING

text \<open>The micro-structure object; \<open>m_confidence\<close> is \<open>None\<close> in the early return, which has
  no \<open>confidence\<close> key.\<close>

record micro =
  m_momentum :: js_number
  m_volatility :: js_number
  prediction :: prediction_name
  m_confidence :: "real option"

definition analyzeMicroStructure :: "tick list \<Rightarrow> candle \<Rightarrow> micro" where
  "analyzeMicroStructure tickBuffer currentCandle =
     (if length tickBuffer < 10
      then \<lparr>m_momentum = Num 0, m_volatility = Num 0, prediction = UNCERTAIN,
            m_confidence = None\<rparr>
      else
        let recentTicks = drop (length tickBuffer - 20) tickBuffer;
            prices = map quote recentTicks;
            avgPrice = sum_list prices / real (length prices);
            momentum = js_div (prices ! (length prices - 1) - prices ! 0) (prices ! 0);
            variance = sum_list (map (\<lambda>p. (p - avgPrice)\<^sup>2) prices) / real (length prices);
            microVol = sqrt variance;
            volRatio = js_div microVol avgPrice;
            currentBody = \<bar>close currentCandle - c_open currentCandle\<bar>;
            currentRange = high currentCandle - low currentCandle;
            pred =
              (if js_gt volRatio 0.001 \<and> js_gt momentum 0.0005 then BULLISH_CONTINUATION
               else if js_gt volRatio 0.001 \<and> js_lt momentum (- 0.0005)
                 then BEARISH_CONTINUATION
               else if js_lt volRatio 0.0003 then CONSOLIDATION_LIKELY
               else if currentBody < currentRange * 0.2 then DOJI_FORMING
               else UNCERTAIN)
        in \<lparr>m_momentum = momentum, m_volatility = volRatio, prediction = pred,
            m_confidence = Some (min (real (length recentTicks) / 20) 1)\<rparr>)"

section \<open>Decisions (decisions.js)\<close>

datatype action = HOLD | BUY | SELL | STRONG_BUY | STRONG_SELL

text \<open>The reason of a decision: a literal string, or one of the four template strings of the
  decision logic, kept as the values the template formats (\<open>toFixed\<close> is not modelled).\<close>

datatype reason =
  Text string
  | BullishComposite real regime_type pattern_name
  | BearishComposite real regime_type pattern_name
  | ModerateSignal bool
  | InsufficientStrength real real

text \<open>The \<open>indicators\<close> object of a decision; \<open>i_macd\<close> is \<open>None\<close> where the object has no
  \<open>macd\<close> key (the low-volatility return), \<open>i_atr\<close> is \<open>None\<close> where \<open>atr[i]\<close> is \<open>null\<close> or
  \<open>undefined\<close>.\<close>

record indicators =
  ma14Now :: "real option"
  ma50Now :: "real option"
  rsiNow :: real
  bbNow :: band
  i_volatility :: real
  i_atr :: "real option"
  i_macd :: "real option"
  i_pattern :: pattern
  microAnalysis :: micro

text \<open>The decision object; a field is \<open>None\<close> where the returned object has no such key.\<close>

record decision =
  d_action :: action
  d_reason :: reason
  confidence :: real
  compositeSignal :: "real option"
  d_indicators :: "indicators option"
  d_regime :: "regime option"
  d_weights :: "weights option"

datatype trade_result = WIN | LOSS

text \<open>A record of the stored trade history; only \<open>result\<close> is read by the decision engine
  (\<open>None\<close>: the record has no result yet).\<close>

record trade =
  result :: "trade_result option"
  profit :: "real option"

text \<open>The process-wide state the decision engine reads and writes: the globals
  \<open>marketRegime\<close>, \<open>indicatorWeights\<close> and \<open>tickBuffer\<close> of main.js, and the parsed
  \<open>tradeHistory\<close> entry of \<open>localStorage\<close> (the empty list when the entry is missing).\<close>

record engine_state =
  marketRegime :: regime
  indicatorWeights :: weights
  tickBuffer :: "tick list"
  tradeHistory :: "trade list"

text \<open>The initial values of main.js.\<close>

definition initialRegime :: regime where
  "initialRegime =
     \<lparr>r_type = UNKNOWN, r_volatility = Num 0, r_trend = 0, r_confidence = 0, r_atr = None\<rparr>"

definition initialWeights :: weights where
  "initialWeights = \<lparr>w_ma = 1.0, w_rsi = 1.0, w_bb = 1.0, w_momentum = 1.0, w_volume = 1.0\<rparr>"

definition initialState :: engine_state where
  "initialState =
     \<lparr>marketRegime = initialRegime, indicatorWeights = initialWeights, tickBuffer = [],
      tradeHistory = []\<rparr>"

subsection \<open>Duration optimizer\<close>

record duration_plan =
  duration :: int
  riskScore :: real

text \<open>\<open>Math.round\<close> rounds half up.\<close>

definition js_round :: "real \<Rightarrow> int" where
  "js_round x = \<lfloor>x + 1 / 2\<rfloor>"

text \<open>The duration multiplier and the risk score of \<open>optimizeTradeDuration\<close> after its four
  adjustments (regime, pattern, volatility, confidence).\<close>

definition durationFactors :: "decision \<Rightarrow> regime \<Rightarrow> real \<Rightarrow> pattern \<Rightarrow> real \<times> real" where
  "durationFactors dec rg volatility pat =
     (let (m0, r0) =
            (if r_type rg = STRONG_UPTREND \<or> r_type rg = STRONG_DOWNTREND then (1.5, 0.3)
             else if r_type rg = HIGH_VOLATILITY then (0.7, 0.7)
             else if r_type rg = CONSOLIDATION then (0.8, 0.6)
             else (1.0, 0.5));
          (m1, r1) = (if strength pat > 0.8 then (m0 * 1.2, r0 * 0.85) else (m0, r0));
          (m2, r2) =
            (if volatility > 0.015 then (m1 * 0.8, r1 * 1.2)
             else if volatility < 0.005 then (m1 * 1.1, r1 * 0.9)
             else (m1, r1))
      in if confidence dec > 0.8 then (m2 * 1.15, r2 * 0.9)
         else if confidence dec < 0.6 then (m2 * 0.85, r2 * 1.1)
         else (m2, r2))"

text \<open>\<open>optimizeTradeDuration\<close>; \<open>baseGranularity\<close> is the integer \<open>parseInt\<close> reads from the
  granularity control. The \<open>rationale\<close> string of the result is display text and is left
  out.\<close>

definition optimizeTradeDuration ::
  "int \<Rightarrow> decision \<Rightarrow> regime \<Rightarrow> real \<Rightarrow> pattern \<Rightarrow> duration_plan" where
  "optimizeTradeDuration baseGranularity dec rg volatility pat =
     (let (durationMultiplier, risk) = durationFactors dec rg volatility pat;
          optimizedDuration = js_round (real_of_int baseGranularity * durationMultiplier);
          finalDuration = max baseGranularity (min optimizedDuration (baseGranularity * 3))
      in \<lparr>duration = finalDuration, riskScore = min risk (1::real)\<rparr>)"

subsection \<open>Decision engine\<close>

text \<open>The win rate over the first 20 records of the history, \<open>0.5\<close> when there is none.\<close>

definition winRateOf :: "trade list \<Rightarrow> real" where
  "winRateOf hist =
     (let recentTrades = take 20 hist
      in if length recentTrades > 0
         then real (length (filter (\<lambda>t. result t = Some WIN) recentTrades))
                / real (length recentTrades)
         else 0.5)"

text \<open>\<open>rsi[i] || 50\<close>: the fallback \<open>50\<close> replaces every falsy value, \<open>null\<close>, \<open>undefined\<close> and
  \<open>0\<close>.\<close>

definition rsiNowOf :: "real option list \<Rightarrow> nat \<Rightarrow> real" where
  "rsiNowOf rsi i = (if truthy (elem_at rsi i) then (case elem_at rsi i of Some v \<Rightarrow> v | None \<Rightarrow> 50) else 50)"

text \<open>The weighted signals of the fusion step.\<close>

definition trendSignal :: "real \<Rightarrow> real \<Rightarrow> weights \<Rightarrow> real" where
  "trendSignal price ma14 w = (if price > ma14 then 1 else - 1) * w_ma w"

definition momentumSignal :: "real \<Rightarrow> real \<Rightarrow> weights \<Rightarrow> real" where
  "momentumSignal price prevPrice w = ((price - prevPrice) / prevPrice * 1000) * w_momentum w"

definition rsiSignal :: "real \<Rightarrow> weights \<Rightarrow> real" where
  "rsiSignal rsiN w = (if rsiN < 30 then 1 else if rsiN > 70 then - 1 else 0) * w_rsi w"

text \<open>In \<open>price <= bbNow.lower\<close> a \<open>null\<close> band compares as \<open>0\<close>; the fusion step is only
  reached with a band whose \<open>upper\<close> is a non-zero number.\<close>

definition js_num :: "real option \<Rightarrow> real" where
  "js_num v = (case v of None \<Rightarrow> 0 | Some x \<Rightarrow> x)"

definition bbSignal :: "real \<Rightarrow> band \<Rightarrow> weights \<Rightarrow> real" where
  "bbSignal price bb w =
     (if price \<le> js_num (lower bb) then 1 else if price \<ge> js_num (upper bb) then - 1 else 0)
       * w_bb w"

definition macdSignal :: "real \<Rightarrow> real" where
  "macdSignal macdNow = (if macdNow > 0 then 1 else - 1) * 0.8"

definition patternSignal :: "pattern \<Rightarrow> real" where
  "patternSignal pat =
     (let s0 = (if signal pat = BULLISH \<or> signal pat = STRONG_BULLISH then strength pat
                else 0)
      in if signal pat = BEARISH \<or> signal pat = STRONG_BEARISH then - strength pat else s0)"

definition microSignal :: "micro \<Rightarrow> real" where
  "microSignal mic =
     (let s0 = (if prediction mic = BULLISH_CONTINUATION then 0.6 else 0)
      in if prediction mic = BEARISH_CONTINUATION then - 0.6 else s0)"

text \<open>The confidence of a composite signal.\<close>

definition confidenceOf :: "real \<Rightarrow> real \<Rightarrow> real \<Rightarrow> real \<Rightarrow> real" where
  "confidenceOf composite regimeConfidence patternStrength winRate =
     (let signalStrength = \<bar>composite\<bar>;
          b0 = min (signalStrength / 5) 1;
          b1 = b0 * regimeConfidence;
          b2 = (if patternStrength > 0.7 then b1 * 1.15 else b1);
          b3 = (if winRate > 0.6 then b2 * 1.1 else if winRate < 0.4 then b2 * 0.85 else b2)
      in min b3 0.95)"

text \<open>The decision logic after the volatility filter.\<close>

definition decide :: "real \<Rightarrow> real \<Rightarrow> regime \<Rightarrow> pattern \<Rightarrow> action \<times> reason" where
  "decide composite conf rg pat =
     (if composite > 2.5 \<and> conf > 0.65
        then (if composite > 4 then STRONG_BUY else BUY,
              BullishComposite composite (r_type rg) (p_pattern pat))
      else if composite < - 2.5 \<and> conf > 0.65
        then (if composite < - 4 then STRONG_SELL else SELL,
              BearishComposite composite (r_type rg) (p_pattern pat))
      else if \<bar>composite\<bar> > 1.5 \<and> conf > 0.7
        then (if composite > 0 then BUY else SELL, ModerateSignal (composite > 0))
      else (HOLD, InsufficientStrength composite (conf * 100)))"

definition insufficientData :: decision where
  "insufficientData =
     \<lparr>d_action = HOLD, d_reason = Text ''Insufficient data'', confidence = 0,
      compositeSignal = None, d_indicators = None, d_regime = None, d_weights = None\<rparr>"

definition indicatorsNotReady :: decision where
  "indicatorsNotReady =
     \<lparr>d_action = HOLD, d_reason = Text ''Indicators not ready'', confidence = 0,
      compositeSignal = None, d_indicators = None, d_regime = None, d_weights = None\<rparr>"

definition lowVolatility :: "indicators \<Rightarrow> decision" where
  "lowVolatility ind =
     \<lparr>d_action = HOLD, d_reason = Text ''Extremely low volatility - no edge'', confidence = 0,
      compositeSignal = None, d_indicators = Some ind, d_regime = None, d_weights = None\<rparr>"

text \<open>The second half of \<open>advancedDecisionEngine\<close>, from the readiness check to the returned
  object, as a function of the locals the first half has computed: the weights and the
  regime as just updated, the win rate, and the values at the latest index.\<close>

definition fuseAndDecide ::
  "weights \<Rightarrow> regime \<Rightarrow> real \<Rightarrow> real \<Rightarrow> real \<Rightarrow> real \<Rightarrow> real option \<Rightarrow> real option \<Rightarrow> real
     \<Rightarrow> band \<Rightarrow> real \<Rightarrow> real option \<Rightarrow> pattern \<Rightarrow> micro \<Rightarrow> decision" where
  "fuseAndDecide w rg winRate volatility price prevPrice ma14N ma50N rsiN bbN macdNow atrNow
       pat mic =
     (case ma14N of
        None \<Rightarrow> indicatorsNotReady
      | Some ma14v \<Rightarrow>
          if \<not> truthy (upper bbN) then indicatorsNotReady
          else
            let composite =
                  trendSignal price ma14v w + momentumSignal price prevPrice w
                  + rsiSignal rsiN w + bbSignal price bbN w + macdSignal macdNow
                  + patternSignal pat + microSignal mic;
                conf = confidenceOf composite (r_confidence rg) (strength pat) winRate
            in
              if volatility < 0.002
              then lowVolatility
                     \<lparr>ma14Now = ma14N, ma50Now = ma50N, rsiNow = rsiN, bbNow = bbN,
                      i_volatility = volatility, i_atr = atrNow, i_macd = None,
                      i_pattern = pat, microAnalysis = mic\<rparr>
              else
                let (act, rsn) = decide composite conf rg pat
                in \<lparr>d_action = act, d_reason = rsn, confidence = conf,
                    compositeSignal = Some composite,
                    d_indicators =
                      Some \<lparr>ma14Now = ma14N, ma50Now = ma50N, rsiNow = rsiN, bbNow = bbN,
                            i_volatility = volatility, i_atr = atrNow, i_macd = Some macdNow,
                            i_pattern = pat, microAnalysis = mic\<rparr>,
                    d_regime = Some rg, d_weights = Some w\<rparr>)"

text \<open>\<open>advancedDecisionEngine\<close>: the candles are \<open>None\<close> when the argument is missing
  (\<open>null\<close> or \<open>undefined\<close>). The result is the returned decision and the process-wide state
  after the call. With 50 or more candles the function computes its indicators, overwrites
  \<open>marketRegime\<close> and \<open>indicatorWeights\<close>, reads the values at the latest index and goes on
  with \<open>fuseAndDecide\<close>.\<close>

definition advancedDecisionEngine ::
  "engine_state \<Rightarrow> candle list option \<Rightarrow> decision \<times> engine_state" where
  "advancedDecisionEngine st arg =
     (case arg of
        None \<Rightarrow> (insufficientData, st)
      | Some candles \<Rightarrow>
          if length candles < 50 then (insufficientData, st)
          else
            let closes = map close candles;
                ma14 = calcMA closes 14;
                ma50 = calcMA closes 50;
                rsi = calcRSI closes 14;
                bb = calcBollinger closes 20 2;
                macdRes = calcMACD closes 12 26 9;
                volatility = calcVolatility closes 20;
                atr = calcATR candles 14;
                st1 = st\<lparr>marketRegime := detectMarketRegime candles\<rparr>;
                winRate = winRateOf (tradeHistory st1);
                st2 = st1\<lparr>indicatorWeights :=
                        updateIndicatorWeights (indicatorWeights st1) (marketRegime st1) winRate\<rparr>;
                pat = identifyCandlestickPattern candles;
                mic = analyzeMicroStructure (tickBuffer st2) (candles ! (length candles - 1));
                i = length closes - 1
            in (fuseAndDecide (indicatorWeights st2) (marketRegime st2) winRate volatility
                  (closes ! i) (closes ! (i - 1)) (elem_at ma14 i) (elem_at ma50 i)
                  (rsiNowOf rsi i) (bb ! i) (histogram macdRes ! i) (elem_at atr i) pat mic,
                st2))"

section \<open>Concrete inputs\<close>

text \<open>A candle whose four prices are all \<open>p\<close>, a flat series of 50 such candles, a series of
  50 candles whose closes fall by one unit each from 100 to 51, and a series whose closes
  rise from 1 to 50.\<close>

definition flatCandle :: "real \<Rightarrow> candle" where
  "flatCandle p = \<lparr>epoch = 0, c_open = p, high = p, low = p, close = p\<rparr>"

definition flatCandles :: "real \<Rightarrow> candle list" where
  "flatCandles p = replicate 50 (flatCandle p)"

definition fallingCandles :: "candle list" where
  "fallingCandles = map (\<lambda>k. flatCandle (100 - real k)) [0..<50]"

definition risingCloses :: "real list" where
  "risingCloses = map (\<lambda>k. 1 + real k) [0..<50]"

text \<open>A state other than the initial one: another regime, other weights, and one stored
  trade.\<close>

definition otherState :: engine_state where
  "otherState =
     \<lparr>marketRegime =
        \<lparr>r_type = HIGH_VOLATILITY, r_volatility = Num 0.02, r_trend = 0, r_confidence = 0.6,
         r_atr = Some 1\<rparr>,
      indicatorWeights =
        \<lparr>w_ma = 0.77, w_rsi = 1.32, w_bb = 1.65, w_momentum = 1.21, w_volume = 1.1\<rparr>,
      tickBuffer = [],
      tradeHistory = [\<lparr>result = Some WIN, profit = Some 1\<rparr>]\<rparr>"

text \<open>The same state after \<open>clearHistory\<close> of main.js, which removes the stored history and
  leaves \<open>indicatorWeights\<close> as they are.\<close>

definition clearedState :: engine_state where
  "clearedState = otherState\<lparr>tradeHistory := []\<rparr>"

definition strongUptrend :: regime where
  "strongUptrend =
     \<lparr>r_type = STRONG_UPTREND, r_volatility = Num 0.005, r_trend = 0.03, r_confidence = 0.85,
      r_atr = None\<rparr>"

section \<open>Lengths of the indicator arrays\<close>

lemma length_calcMA: "length (calcMA values period) = length values"
  by (simp add: calcMA_def)

lemma length_ema_loop: "length (ema_loop k prev vs) = length vs"
  by (induction vs arbitrary: prev) (simp_all add: Let_def)

lemma length_calcEMA: "length (calcEMA values period) = length values"
  by (cases "values") (simp_all add: length_ema_loop)

lemma length_diffs: "length (diffs vs) = length vs - 1"
  by (induction vs rule: diffs.induct) simp_all

lemma length_gains: "length (gains vs) = length vs - 1"
  by (simp add: gains_def length_diffs)

lemma length_losses: "length (losses vs) = length vs - 1"
  by (simp add: losses_def length_diffs)

lemma length_rsi_loop:
  "length gs = length ls \<Longrightarrow> length (rsi_loop period ag al gs ls) = length gs"
  by (induction period ag al gs ls rule: rsi_loop.induct) (simp_all add: Let_def)

lemma length_calcRSI: "length (calcRSI values period) = length values"
  by (auto simp add: calcRSI_def Let_def length_rsi_loop length_gains length_losses)

lemma length_calcBollinger: "length (calcBollinger values period mult) = length values"
  by (simp add: calcBollinger_def)

lemma length_calcMACD:
  "length (macdLine (calcMACD values f s g)) = length values"
  "length (signalLine (calcMACD values f s g)) = length values"
  "length (histogram (calcMACD values f s g)) = length values"
  by (simp_all add: calcMACD_def Let_def length_calcEMA)

lemma length_trueRanges: "length (trueRanges cs) = length cs - 1"
  by (induction cs rule: trueRanges.induct) simp_all

lemma length_atr_loop: "length (atr_loop period prev ts) = length ts"
  by (induction ts arbitrary: prev) (simp_all add: Let_def)

lemma length_calcATR:
  "length (calcATR candles period) =
     (if length candles < period + 1 then length candles else length candles + 1 - period)"
  by (auto simp add: calcATR_def Let_def length_atr_loop length_trueRanges)

lemma calcATR_latest_undefined:
  "50 \<le> length cs \<Longrightarrow> elem_at (calcATR cs 14) (length cs - 1) = None"
  by (auto simp add: elem_at_def length_calcATR)

text \<open>
  \<^bold>\<open>Claim C1\<close> (every indicator array has the length of its input). This holds for
  \<open>calcMA\<close>, \<open>calcEMA\<close>, \<open>calcRSI\<close>, \<open>calcBollinger\<close> and the three arrays of \<open>calcMACD\<close> (the
  lemmas above). It fails for \<open>calcATR\<close>: once there are more than \<open>period\<close> candles the
  output starts from \<open>[null]\<close> and has \<open>length - period + 1\<close> entries (\<open>length_calcATR\<close>).
  On 15 candles with period 14 the output has 2 entries; on 50 candles it has 37, and the
  decision engine's read \<open>atr[closes.length - 1]\<close> is past the end of the array
  (\<open>calcATR_latest_undefined\<close>).
\<close>

theorem calcATR_not_index_aligned:
  "length (replicate 15 (flatCandle 100)) = 15
   \<and> length (calcATR (replicate 15 (flatCandle 100)) 14) = 2
   \<and> length (calcATR (flatCandles 100) 14) = 37
   \<and> elem_at (calcATR (flatCandles 100) 14) 49 = None"
  by (simp add: length_calcATR flatCandles_def elem_at_def)

section \<open>Adaptive weights\<close>

lemma updateIndicatorWeights_four_keys:
  "w_ma (updateIndicatorWeights w rg wr) = w_ma (updateIndicatorWeights w' rg wr)"
  "w_rsi (updateIndicatorWeights w rg wr) = w_rsi (updateIndicatorWeights w' rg wr)"
  "w_bb (updateIndicatorWeights w rg wr) = w_bb (updateIndicatorWeights w' rg wr)"
  "w_momentum (updateIndicatorWeights w rg wr) = w_momentum (updateIndicatorWeights w' rg wr)"
  by (simp_all add: updateIndicatorWeights_def regimeTable_def scaleWeights_def Let_def)

lemma updateIndicatorWeights_volume:
  "w_volume (updateIndicatorWeights w rg wr) =
     (if r_type rg \<in> {STRONG_UPTREND, STRONG_DOWNTREND, HIGH_VOLATILITY, CONSOLIDATION}
      then w_volume w else 1)
     * (if wr > 0.65 then 1.1 else if wr < 0.45 then 0.85 else 1)"
  by (simp add: updateIndicatorWeights_def regimeTable_def scaleWeights_def Let_def)

text \<open>
  \<^bold>\<open>Claim C2\<close> (after one call of \<open>updateIndicatorWeights\<close> each of the five weights is
  determined by the regime and the win rate alone). The keys \<open>ma\<close>, \<open>rsi\<close>, \<open>bb\<close> and
  \<open>momentum\<close> are (\<open>updateIndicatorWeights_four_keys\<close>). The key \<open>volume\<close> is not: the three
  regime cases of the \<open>switch\<close> leave it as it was, and the win-rate scaling multiplies it
  again at every call. From the initial weights, two calls with a strong uptrend and the
  win rate 0.7 give \<open>volume = 1.1\<close> after the first and \<open>volume = 1.21\<close> after the second:
  the same regime and win rate, two different results.
\<close>

theorem updateIndicatorWeights_volume_carries_over:
  "w_volume (updateIndicatorWeights initialWeights strongUptrend 0.7) = 1.1
   \<and> w_volume (updateIndicatorWeights
                 (updateIndicatorWeights initialWeights strongUptrend 0.7) strongUptrend 0.7)
       = 1.21"
  by (simp add: updateIndicatorWeights_def regimeTable_def scaleWeights_def Let_def
      initialWeights_def strongUptrend_def)

section \<open>Duration optimizer\<close>

text \<open>
  \<^bold>\<open>Claim C6\<close>: for a positive base granularity the duration of \<open>optimizeTradeDuration\<close> lies
  in \<open>[base, 3 * base]\<close> and the risk score is at most 1, whatever the decision, the regime,
  the volatility and the pattern are.
\<close>

theorem optimizeTradeDuration_bounds:
  assumes "0 < base"
  shows "base \<le> duration (optimizeTradeDuration base dec rg vol pat)
         \<and> duration (optimizeTradeDuration base dec rg vol pat) \<le> 3 * base
         \<and> riskScore (optimizeTradeDuration base dec rg vol pat) \<le> 1"
  using assms
  by (cases "durationFactors dec rg vol pat") (simp add: optimizeTradeDuration_def)

theorem optimizeTradeDuration_bounds_witness:
  "(0::int) < 60
   \<and> 60 \<le> duration (optimizeTradeDuration 60 insufficientData strongUptrend 0.02
                      \<lparr>p_pattern = THREE_WHITE_SOLDIERS, strength = 0.9, signal = STRONG_BULLISH\<rparr>)
   \<and> duration (optimizeTradeDuration 60 insufficientData strongUptrend 0.02
                 \<lparr>p_pattern = THREE_WHITE_SOLDIERS, strength = 0.9, signal = STRONG_BULLISH\<rparr>)
       \<le> 3 * 60
   \<and> riskScore (optimizeTradeDuration 60 insufficientData strongUptrend 0.02
                  \<lparr>p_pattern = THREE_WHITE_SOLDIERS, strength = 0.9, signal = STRONG_BULLISH\<rparr>)
       \<le> 1"
proof -
  have h: "(0::int) < 60" by simp
  show ?thesis
    using h optimizeTradeDuration_bounds [OF h, of insufficientData strongUptrend "0.02"
        "\<lparr>p_pattern = THREE_WHITE_SOLDIERS, strength = 0.9, signal = STRONG_BULLISH\<rparr>"]
    by simp
qed

section \<open>Decision engine: the early return\<close>

text \<open>
  \<^bold>\<open>Claim C5\<close>: with a missing candle sequence or one of fewer than 50 candles the decision
  engine returns exactly the object \<open>{action: HOLD, reason: "Insufficient data",
  confidence: 0}\<close>: no composite signal, no indicators, no regime and no weights are part
  of it, and nothing of the process-wide state has been written.
\<close>

theorem insufficient_data_hold:
  assumes "arg = None \<or> (\<exists>cs. arg = Some cs \<and> length cs < 50)"
  shows "fst (advancedDecisionEngine st arg) =
           \<lparr>d_action = HOLD, d_reason = Text ''Insufficient data'', confidence = 0,
            compositeSignal = None, d_indicators = None, d_regime = None, d_weights = None\<rparr>
         \<and> snd (advancedDecisionEngine st arg) = st"
  using assms by (auto simp add: advancedDecisionEngine_def insufficientData_def)

theorem insufficient_data_hold_witness:
  "fst (advancedDecisionEngine otherState None) =
     \<lparr>d_action = HOLD, d_reason = Text ''Insufficient data'', confidence = 0,
      compositeSignal = None, d_indicators = None, d_regime = None, d_weights = None\<rparr>
   \<and> fst (advancedDecisionEngine otherState (Some [])) =
     \<lparr>d_action = HOLD, d_reason = Text ''Insufficient data'', confidence = 0,
      compositeSignal = None, d_indicators = None, d_regime = None, d_weights = None\<rparr>
   \<and> length (replicate 49 (flatCandle 100)) < 50
   \<and> fst (advancedDecisionEngine otherState (Some (replicate 49 (flatCandle 100)))) =
     \<lparr>d_action = HOLD, d_reason = Text ''Insufficient data'', confidence = 0,
      compositeSignal = None, d_indicators = None, d_regime = None, d_weights = None\<rparr>
   \<and> snd (advancedDecisionEngine otherState (Some (replicate 49 (flatCandle 100))))
       = otherState"
proof -
  have a: "(None :: candle list option) = None \<or> (\<exists>cs. None = Some cs \<and> length cs < 50)"
    by simp
  have b: "Some (replicate 49 (flatCandle 100)) = None
           \<or> (\<exists>cs. Some (replicate 49 (flatCandle 100)) = Some cs \<and> length cs < 50)"
    by simp
  have c: "Some ([] :: candle list) = None \<or> (\<exists>cs. Some [] = Some cs \<and> length cs < 50)"
    by simp
  show ?thesis
    using insufficient_data_hold [OF a, of otherState]
      insufficient_data_hold [OF b, of otherState]
      insufficient_data_hold [OF c, of otherState]
    by simp
qed

section \<open>RSI on monotone series\<close>

lemma diffs_nondecreasing: "sorted_wrt (\<le>) vs \<Longrightarrow> \<forall>d\<in>set (diffs vs). 0 \<le> d"
  by (induction vs rule: diffs.induct) auto

lemma diffs_decreasing: "sorted_wrt (>) vs \<Longrightarrow> \<forall>d\<in>set (diffs vs). d < 0"
  by (induction vs rule: diffs.induct) auto

lemma losses_nondecreasing: "sorted_wrt (\<le>) vs \<Longrightarrow> \<forall>l\<in>set (losses vs). l = 0"
  using diffs_nondecreasing [of vs] by (auto simp add: losses_def)

lemma gains_decreasing: "sorted_wrt (>) vs \<Longrightarrow> \<forall>g\<in>set (gains vs). g = 0"
  using diffs_decreasing [of vs] by (auto simp add: gains_def)

lemma losses_decreasing: "sorted_wrt (>) vs \<Longrightarrow> \<forall>l\<in>set (losses vs). 0 < l"
  using diffs_decreasing [of vs] by (auto simp add: losses_def)

lemma sum_list_all_zero: "\<forall>x\<in>set xs. x = (0::real) \<Longrightarrow> sum_list xs = 0"
  by (induction xs) auto

lemma sum_list_all_pos: "xs \<noteq> [] \<Longrightarrow> \<forall>x\<in>set xs. (0::real) < x \<Longrightarrow> 0 < sum_list xs"
  by (induction xs) (auto simp add: add_pos_nonneg sum_list_nonneg less_imp_le)

lemma rsi_value_no_gain: "al \<noteq> 0 \<Longrightarrow> rsi_value 0 al = 0"
  by (simp add: rsi_value_def)

text \<open>With no loss so far and none to come, the loop writes \<open>100\<close> at every index.\<close>

lemma rsi_loop_no_loss:
  "\<forall>l\<in>set ls. l = 0 \<Longrightarrow> \<forall>x\<in>set (rsi_loop p ag 0 gs ls). x = Some 100"
  by (induction p ag "0::real" gs ls rule: rsi_loop.induct)
     (auto simp add: Let_def rsi_value_def)

text \<open>With no gain so far and none to come, and a loss at every step, it writes \<open>0\<close>.\<close>

lemma rsi_loop_no_gain:
  "0 < p \<Longrightarrow> ag = 0 \<Longrightarrow> \<forall>g\<in>set gs. g = 0 \<Longrightarrow> \<forall>l\<in>set ls. 0 < l \<Longrightarrow> 0 \<le> al \<Longrightarrow>
     \<forall>x\<in>set (rsi_loop p ag al gs ls). x = Some 0"
proof (induction p ag al gs ls rule: rsi_loop.induct)
  case (1 period avgGain avgLoss g gs l ls)
  define ag' where "ag' = (avgGain * (real period - 1) + g) / real period"
  define al' where "al' = (avgLoss * (real period - 1) + l) / real period"
  have g: "g = 0" and l: "0 < l" and ag: "avgGain = 0" using "1.prems" by auto
  have "0 \<le> avgLoss * (real period - 1)" using "1.prems" by simp
  then have pos: "0 < al'"
    unfolding al'_def using l "1.prems"(1) by (simp add: add_nonneg_pos)
  have zero: "ag' = 0"
    unfolding ag'_def using g ag by simp
  have step: "\<forall>x\<in>set (rsi_loop period ag' al' gs ls). x = Some 0"
    using "1.prems" pos zero by (intro "1.IH" [OF ag'_def al'_def]) (simp_all add: less_imp_le)
  have "rsi_loop period avgGain avgLoss (g # gs) (l # ls)
          = Some (rsi_value ag' al') # rsi_loop period ag' al' gs ls"
    by (simp add: Let_def ag'_def al'_def)
  moreover have "rsi_value ag' al' = 0"
    using zero pos by (simp add: rsi_value_no_gain)
  ultimately show ?case using step by simp
qed simp_all

text \<open>From index \<open>period\<close> on, an entry of \<open>calcRSI\<close> is the first value or one the loop
  wrote.\<close>

lemma calcRSI_tail:
  assumes "p < length vs" "p \<le> i" "i < length vs"
  shows "calcRSI vs p ! i \<in>
           set (Some (rsi_value (sum_list (take p (gains vs)) / real p)
                        (sum_list (take p (losses vs)) / real p))
                # rsi_loop p (sum_list (take p (gains vs)) / real p)
                    (sum_list (take p (losses vs)) / real p)
                    (drop p (gains vs)) (drop p (losses vs)))"
    (is "_ \<in> set ?ys")
proof -
  have len: "length ?ys = length vs - p"
    using assms(1) by (simp add: length_rsi_loop length_gains length_losses)
  have "calcRSI vs p ! i = ?ys ! (i - p)"
    using assms by (simp add: calcRSI_def Let_def nth_append)
  moreover have "i - p < length ?ys" using assms len by simp
  ultimately show ?thesis using nth_mem by metis
qed

lemma calcRSI_nondecreasing:
  assumes "sorted_wrt (\<le>) vs" "0 < p" "p < length vs" "p \<le> i" "i < length vs"
  shows "calcRSI vs p ! i = Some 100"
proof -
  have z: "\<forall>l\<in>set (losses vs). l = 0" by (rule losses_nondecreasing [OF assms(1)])
  have a0: "sum_list (take p (losses vs)) / real p = 0"
    using z by (auto intro!: sum_list_all_zero dest: in_set_takeD)
  have "\<forall>l\<in>set (drop p (losses vs)). l = 0" using z by (auto dest: in_set_dropD)
  from rsi_loop_no_loss [OF this]
  have "\<forall>x\<in>set (rsi_loop p (sum_list (take p (gains vs)) / real p) 0
                  (drop p (gains vs)) (drop p (losses vs))). x = Some 100" .
  moreover have "calcRSI vs p ! i \<in>
      set (Some (rsi_value (sum_list (take p (gains vs)) / real p) 0)
           # rsi_loop p (sum_list (take p (gains vs)) / real p) 0
               (drop p (gains vs)) (drop p (losses vs)))"
    using calcRSI_tail [OF assms(3,4,5)] a0 by simp
  ultimately show ?thesis by (auto simp add: rsi_value_def)
qed

lemma calcRSI_decreasing:
  assumes "sorted_wrt (>) vs" "0 < p" "p < length vs" "p \<le> i" "i < length vs"
  shows "calcRSI vs p ! i = Some 0"
proof -
  have zg: "\<forall>g\<in>set (gains vs). g = 0" by (rule gains_decreasing [OF assms(1)])
  have pl: "\<forall>l\<in>set (losses vs). 0 < l" by (rule losses_decreasing [OF assms(1)])
  have g0: "sum_list (take p (gains vs)) / real p = 0"
    using zg by (auto intro!: sum_list_all_zero dest: in_set_takeD)
  have "length (take p (losses vs)) = p" using assms(3) by (simp add: length_losses)
  then have "take p (losses vs) \<noteq> []" using assms(2) by auto
  moreover have "\<forall>l\<in>set (take p (losses vs)). 0 < l" using pl by (auto dest: in_set_takeD)
  ultimately have "0 < sum_list (take p (losses vs))" by (rule sum_list_all_pos)
  then have l0: "0 < sum_list (take p (losses vs)) / real p" using assms(2) by simp
  have "\<forall>g\<in>set (drop p (gains vs)). g = 0" using zg by (auto dest: in_set_dropD)
  moreover have "\<forall>l\<in>set (drop p (losses vs)). 0 < l" using pl by (auto dest: in_set_dropD)
  ultimately have "\<forall>x\<in>set (rsi_loop p 0 (sum_list (take p (losses vs)) / real p)
                     (drop p (gains vs)) (drop p (losses vs))). x = Some 0"
    using l0 assms(2) by (intro rsi_loop_no_gain) simp_all
  moreover have "calcRSI vs p ! i \<in>
      set (Some (rsi_value 0 (sum_list (take p (losses vs)) / real p))
           # rsi_loop p 0 (sum_list (take p (losses vs)) / real p)
               (drop p (gains vs)) (drop p (losses vs)))"
    using calcRSI_tail [OF assms(3,4,5)] g0 by simp
  moreover have "rsi_value 0 (sum_list (take p (losses vs)) / real p) = 0"
    by (rule rsi_value_no_gain [OF less_imp_neq [THEN not_sym, OF l0]])
  ultimately show ?thesis by auto
qed

lemma rising_sorted: "sorted_wrt (<) risingCloses"
  unfolding risingCloses_def sorted_wrt_map
  by (rule sorted_wrt_mono_rel [OF _ sorted_wrt_upt]) simp

text \<open>
  \<^bold>\<open>Claim C7\<close>: on a strictly increasing series of at least 50 values, \<open>calcRSI\<close> with period
  14 yields \<open>100\<close> at the last index.
\<close>

theorem calcRSI_increasing_saturates:
  assumes "sorted_wrt (<) vs" and "50 \<le> length vs"
  shows "calcRSI vs 14 ! (length vs - 1) = Some 100"
proof -
  have "sorted_wrt (\<le>) vs"
    by (rule sorted_wrt_mono_rel [OF _ assms(1)]) simp
  then show ?thesis
    using assms(2) by (intro calcRSI_nondecreasing) simp_all
qed

theorem calcRSI_increasing_saturates_witness:
  "sorted_wrt (<) risingCloses \<and> 50 \<le> length risingCloses
   \<and> calcRSI risingCloses 14 ! 49 = Some 100"
proof -
  have n: "50 \<le> length risingCloses" by (simp add: risingCloses_def)
  have "length risingCloses - 1 = 49" by (simp add: risingCloses_def)
  then show ?thesis
    using calcRSI_increasing_saturates [OF rising_sorted n] rising_sorted n by simp
qed

section \<open>The two halves of the decision engine\<close>

lemma engine_eq:
  "50 \<le> length cs \<Longrightarrow> advancedDecisionEngine st (Some cs) =
     (fuseAndDecide
        (updateIndicatorWeights (indicatorWeights st) (detectMarketRegime cs)
           (winRateOf (tradeHistory st)))
        (detectMarketRegime cs) (winRateOf (tradeHistory st))
        (calcVolatility (map close cs) 20)
        (map close cs ! (length cs - 1)) (map close cs ! (length cs - 1 - 1))
        (elem_at (calcMA (map close cs) 14) (length cs - 1))
        (elem_at (calcMA (map close cs) 50) (length cs - 1))
        (rsiNowOf (calcRSI (map close cs) 14) (length cs - 1))
        (calcBollinger (map close cs) 20 2 ! (length cs - 1))
        (histogram (calcMACD (map close cs) 12 26 9) ! (length cs - 1))
        (elem_at (calcATR cs 14) (length cs - 1))
        (identifyCandlestickPattern cs)
        (analyzeMicroStructure (tickBuffer st) (cs ! (length cs - 1))),
      st\<lparr>marketRegime := detectMarketRegime cs,
         indicatorWeights :=
           updateIndicatorWeights (indicatorWeights st) (detectMarketRegime cs)
             (winRateOf (tradeHistory st))\<rparr>)"
  by (simp add: advancedDecisionEngine_def Let_def)

lemma fuse_not_ready:
  "m14 = None \<or> \<not> truthy (upper bbN) \<Longrightarrow>
     fuseAndDecide w rg wr vol price prev m14 m50 rsiN bbN macdN atrN pat mic
       = indicatorsNotReady"
  by (cases m14) (auto simp add: fuseAndDecide_def)

lemma fuse_low_vol:
  "m14 = Some m \<Longrightarrow> truthy (upper bbN) \<Longrightarrow> vol < 0.002 \<Longrightarrow>
     fuseAndDecide w rg wr vol price prev m14 m50 rsiN bbN macdN atrN pat mic =
       lowVolatility
         \<lparr>ma14Now = m14, ma50Now = m50, rsiNow = rsiN, bbNow = bbN, i_volatility = vol,
          i_atr = atrN, i_macd = None, i_pattern = pat, microAnalysis = mic\<rparr>"
  by (simp add: fuseAndDecide_def Let_def)

lemma fuse_composite:
  "m14 = Some m \<Longrightarrow> truthy (upper bbN) \<Longrightarrow> \<not> vol < 0.002 \<Longrightarrow>
     compositeSignal (fuseAndDecide w rg wr vol price prev m14 m50 rsiN bbN macdN atrN pat mic)
       = Some (trendSignal price m w + momentumSignal price prev w + rsiSignal rsiN w
               + bbSignal price bbN w + macdSignal macdN + patternSignal pat
               + microSignal mic)"
  by (simp add: fuseAndDecide_def Let_def split: prod.splits)

lemma fuse_conf:
  "compositeSignal (fuseAndDecide w rg wr vol price prev m14 m50 rsiN bbN macdN atrN pat mic)
     = Some c \<Longrightarrow>
   confidence (fuseAndDecide w rg wr vol price prev m14 m50 rsiN bbN macdN atrN pat mic)
     = confidenceOf c (r_confidence rg) (strength pat) wr"
  by (cases m14)
     (auto simp add: fuseAndDecide_def indicatorsNotReady_def lowVolatility_def Let_def
        split: if_splits prod.splits)

lemma fuse_reason:
  "d_reason (fuseAndDecide w rg wr vol price prev m14 m50 rsiN bbN macdN atrN pat mic)
     \<noteq> Text ''Insufficient data''"
  by (cases m14)
     (auto simp add: fuseAndDecide_def indicatorsNotReady_def lowVolatility_def decide_def
        Let_def split: if_splits prod.splits)

lemma calcMA_latest_some:
  "period \<le> length vs \<Longrightarrow> vs \<noteq> [] \<Longrightarrow>
     \<exists>x. elem_at (calcMA vs period) (length vs - 1) = Some x"
  by (auto simp add: elem_at_def calcMA_def)

text \<open>On positive closes the upper Bollinger band at the latest index is a positive
  number.\<close>

lemma bollinger_upper_positive:
  assumes "20 \<le> length vs" "\<forall>v\<in>set vs. 0 < v"
  shows "truthy (upper (calcBollinger vs 20 2 ! (length vs - 1)))"
proof -
  define slice where "slice = take 20 (drop (length vs - 20) vs)"
  define mean where "mean = sum_list slice / 20"
  define dev where "dev = 2 * sqrt (sum_list (map (\<lambda>b. (b - mean)\<^sup>2) slice) / 20)"
  have "length slice = 20" using assms(1) by (simp add: slice_def)
  then have ne: "slice \<noteq> []" by auto
  have "\<forall>v\<in>set slice. 0 < v"
    using assms(2) by (auto simp add: slice_def dest!: in_set_takeD in_set_dropD)
  then have "0 < sum_list slice" using ne by (intro sum_list_all_pos)
  then have m: "0 < mean" by (simp add: mean_def)
  have s: "0 \<le> dev"
    unfolding dev_def
    by (intro mult_nonneg_nonneg real_sqrt_ge_zero divide_nonneg_nonneg sum_list_nonneg) auto
  have i: "length vs - 1 < length vs" "\<not> length vs - 1 + 1 < 20"
    "length vs - 1 + 1 - 20 = length vs - 20"
    using assms(1) by auto
  have u: "upper (calcBollinger vs 20 2 ! (length vs - 1)) = Some (mean + dev)"
    unfolding calcBollinger_def mean_def dev_def slice_def using i by (simp add: Let_def)
  have "mean + dev \<noteq> 0" using m s by linarith
  then show ?thesis unfolding u by (simp add: truthy_def)
qed

section \<open>The RSI contribution to the composite signal\<close>

lemma length_falling: "length fallingCandles = 50"
  by (simp add: fallingCandles_def)

lemma closes_falling: "map close fallingCandles = map (\<lambda>k. 100 - real k) [0..<50]"
  by (simp add: fallingCandles_def flatCandle_def)

lemma falling_sorted: "sorted_wrt (>) (map close fallingCandles)"
  unfolding closes_falling sorted_wrt_map
  by (rule sorted_wrt_mono_rel [OF _ sorted_wrt_upt]) simp

lemma falling_positive: "\<forall>v\<in>set (map close fallingCandles). 0 < v"
  unfolding closes_falling by auto

lemma rsi_falling: "elem_at (calcRSI (map close fallingCandles) 14) 49 = Some 0"
  using calcRSI_decreasing [OF falling_sorted, of 14 49]
  by (simp add: elem_at_def length_calcRSI length_falling)

lemma ma14_falling: "elem_at (calcMA (map close fallingCandles) 14) 49 = Some (115 / 2)"
  unfolding closes_falling by (simp add: elem_at_def calcMA_def drop_map take_map)

lemma vol_falling: "calcVolatility (map close fallingCandles) 20 = sqrt (133 / 4)"
  unfolding closes_falling
  by (simp add: calcVolatility_def Let_def drop_map power2_eq_square)

lemma vol_falling_ge: "\<not> calcVolatility (map close fallingCandles) 20 < 0.002"
proof -
  have "sqrt 1 \<le> sqrt (133 / 4)" by (simp only: real_sqrt_le_iff)
  then have "1 \<le> calcVolatility (map close fallingCandles) 20"
    by (simp add: vol_falling)
  moreover have "(0.002::real) < 1" by simp
  ultimately show ?thesis by (simp only: not_less)
qed

lemma prices_falling:
  "map close fallingCandles ! 49 = 51" "map close fallingCandles ! 48 = 52"
  unfolding closes_falling by simp_all

text \<open>
  \<^bold>\<open>Claim C3\<close> (the RSI contribution is \<open>+weight.rsi\<close> whenever the latest RSI is below 30).
  The engine does not test the RSI value itself but \<open>rsi[i] || 50\<close>, and an RSI of exactly
  \<open>0\<close> is falsy. On the 50 candles whose closes fall from 100 to 51 every difference is a
  loss, the RSI at the latest index is \<open>0\<close>, the value tested is \<open>50\<close>, and the contribution
  is \<open>0\<close>, not \<open>+weight.rsi\<close>. The input reaches the fusion step: the composite signal the
  engine returns is the sum of the other six signals.
\<close>

theorem rsi_zero_contributes_nothing:
  "length fallingCandles = 50
   \<and> elem_at (calcRSI (map close fallingCandles) 14) (length fallingCandles - 1) = Some 0
   \<and> rsiNowOf (calcRSI (map close fallingCandles) 14) (length fallingCandles - 1) = 50
   \<and> rsiSignal (rsiNowOf (calcRSI (map close fallingCandles) 14) (length fallingCandles - 1)) w
       = 0
   \<and> compositeSignal (fst (advancedDecisionEngine st (Some fallingCandles))) =
       Some (trendSignal 51 (115 / 2)
               (indicatorWeights (snd (advancedDecisionEngine st (Some fallingCandles))))
             + momentumSignal 51 52
                 (indicatorWeights (snd (advancedDecisionEngine st (Some fallingCandles))))
             + bbSignal 51 (calcBollinger (map close fallingCandles) 20 2 ! 49)
                 (indicatorWeights (snd (advancedDecisionEngine st (Some fallingCandles))))
             + macdSignal (histogram (calcMACD (map close fallingCandles) 12 26 9) ! 49)
             + patternSignal (identifyCandlestickPattern fallingCandles)
             + microSignal (analyzeMicroStructure (tickBuffer st) (fallingCandles ! 49)))"
proof -
  have n: "50 \<le> length fallingCandles" by (simp add: length_falling)
  have i: "length fallingCandles - 1 = 49" by (simp add: length_falling)
  have r: "rsiNowOf (calcRSI (map close fallingCandles) 14) 49 = 50"
    by (simp add: rsiNowOf_def rsi_falling truthy_def)
  have s: "rsiSignal (rsiNowOf (calcRSI (map close fallingCandles) 14) 49) w' = 0" for w'
    unfolding r by (simp add: rsiSignal_def)
  have "20 \<le> length (map close fallingCandles)" by (simp add: length_falling)
  from bollinger_upper_positive [OF this falling_positive]
  have u: "truthy (upper (calcBollinger (map close fallingCandles) 20 2 ! 49))"
    by (simp add: length_falling)
  have c: "compositeSignal (fst (advancedDecisionEngine st (Some fallingCandles))) =
       Some (trendSignal 51 (115 / 2)
               (indicatorWeights (snd (advancedDecisionEngine st (Some fallingCandles))))
             + momentumSignal 51 52
                 (indicatorWeights (snd (advancedDecisionEngine st (Some fallingCandles))))
             + bbSignal 51 (calcBollinger (map close fallingCandles) 20 2 ! 49)
                 (indicatorWeights (snd (advancedDecisionEngine st (Some fallingCandles))))
             + macdSignal (histogram (calcMACD (map close fallingCandles) 12 26 9) ! 49)
             + patternSignal (identifyCandlestickPattern fallingCandles)
             + microSignal (analyzeMicroStructure (tickBuffer st) (fallingCandles ! 49)))"
    unfolding engine_eq [OF n] fst_conv snd_conv i
    by (simp add: fuse_composite [OF ma14_falling u vol_falling_ge] s prices_falling)
  show ?thesis
    using c by (simp add: i length_falling rsi_falling r rsiSignal_def)
qed

section \<open>The flat series\<close>

lemma length_flat: "length (flatCandles p) = 50"
  by (simp add: flatCandles_def)

lemma closes_flat: "map close (flatCandles p) = replicate 50 p"
  by (simp add: flatCandles_def flatCandle_def)

lemma vol_flat: "calcVolatility (replicate 50 p) 20 = 0"
  by (simp add: calcVolatility_def Let_def sum_list_replicate)

lemma bb_flat:
  "calcBollinger (replicate 50 p) 20 2 ! 49 = \<lparr>upper = Some p, middle = Some p, lower = Some p\<rparr>"
  by (simp add: calcBollinger_def Let_def sum_list_replicate)

lemma ma_flat:
  "elem_at (calcMA (replicate 50 p) 14) 49 = Some p"
  "elem_at (calcMA (replicate 50 p) 20) 49 = Some p"
  "elem_at (calcMA (replicate 50 p) 50) 49 = Some p"
  by (simp_all add: calcMA_def elem_at_def sum_list_replicate)

lemma classify_flat: "classifyRegime 0 (Num 0) = (CONSOLIDATION, 0.65)"
  by (simp add: classifyRegime_def js_gt_def js_lt_def)

lemma regime_flat:
  "r_type (detectMarketRegime (flatCandles 100)) = CONSOLIDATION"
  "r_confidence (detectMarketRegime (flatCandles 100)) = 0.65"
  by (simp_all add: detectMarketRegime_def length_flat Let_def closes_flat vol_flat
      length_calcMA ma_flat trendStrengthOf_def js_div_def classify_flat)

lemma winRate_empty: "winRateOf [] = 0.5"
  by (simp add: winRateOf_def)

lemma weights_flat:
  "updateIndicatorWeights initialWeights (detectMarketRegime (flatCandles 100)) (winRateOf [])
     = \<lparr>w_ma = 0.6, w_rsi = 1.4, w_bb = 1.3, w_momentum = 0.5, w_volume = 1\<rparr>"
  by (simp add: updateIndicatorWeights_def regimeTable_def regime_flat winRate_empty
      initialWeights_def Let_def)

lemma engine_flat:
  "fst (advancedDecisionEngine st (Some (flatCandles 100))) =
     lowVolatility
       \<lparr>ma14Now = Some 100, ma50Now = Some 100,
        rsiNow = rsiNowOf (calcRSI (replicate 50 100) 14) 49,
        bbNow = \<lparr>upper = Some 100, middle = Some 100, lower = Some 100\<rparr>,
        i_volatility = 0, i_atr = None, i_macd = None,
        i_pattern = identifyCandlestickPattern (flatCandles 100),
        microAnalysis = analyzeMicroStructure (tickBuffer st) (flatCandles 100 ! 49)\<rparr>"
proof -
  have n: "50 \<le> length (flatCandles 100)" by (simp add: length_flat)
  have a: "elem_at (calcATR (flatCandles 100) 14) 49 = None"
    using calcATR_latest_undefined [OF n] by (simp add: length_flat)
  show ?thesis
    unfolding engine_eq [OF n] fst_conv
    by (simp add: length_flat closes_flat vol_flat bb_flat ma_flat a fuse_low_vol truthy_def)
qed

section \<open>The volatility gate\<close>

text \<open>With the readiness check passed, a deviation below 0.002 gives the low-volatility HOLD
  with the snapshot computed at the latest index.\<close>

lemma low_volatility_snapshot:
  assumes "50 \<le> length cs"
    and "calcVolatility (map close cs) 20 < 0.002"
    and "truthy (upper (calcBollinger (map close cs) 20 2 ! (length cs - 1)))"
  shows "fst (advancedDecisionEngine st (Some cs)) =
     \<lparr>d_action = HOLD, d_reason = Text ''Extremely low volatility - no edge'', confidence = 0,
      compositeSignal = None,
      d_indicators = Some
        \<lparr>ma14Now = elem_at (calcMA (map close cs) 14) (length cs - 1),
         ma50Now = elem_at (calcMA (map close cs) 50) (length cs - 1),
         rsiNow = rsiNowOf (calcRSI (map close cs) 14) (length cs - 1),
         bbNow = calcBollinger (map close cs) 20 2 ! (length cs - 1),
         i_volatility = calcVolatility (map close cs) 20,
         i_atr = elem_at (calcATR cs 14) (length cs - 1),
         i_macd = None,
         i_pattern = identifyCandlestickPattern cs,
         microAnalysis = analyzeMicroStructure (tickBuffer st) (cs ! (length cs - 1))\<rparr>,
      d_regime = None, d_weights = None\<rparr>"
proof -
  have "14 \<le> length (map close cs)" "map close cs \<noteq> []"
    using assms(1) by auto
  from calcMA_latest_some [OF this]
  obtain x where m: "elem_at (calcMA (map close cs) 14) (length cs - 1) = Some x"
    by auto
  show ?thesis
    unfolding engine_eq [OF assms(1)] fst_conv
    by (simp only: fuse_low_vol [OF m assms(3) assms(2)] lowVolatility_def)
qed

text \<open>On positive closes the upper band is positive, so there the gate does what is said of
  it: HOLD, the low-volatility reason, confidence 0 and a snapshot. The \<open>atr\<close> entry of the
  snapshot is the read past the end of the \<open>calcATR\<close> array and holds no number.\<close>

lemma low_volatility_gate_positive_prices:
  assumes "50 \<le> length cs"
    and "calcVolatility (map close cs) 20 < 0.002"
    and "\<forall>v\<in>set (map close cs). 0 < v"
  shows "d_action (fst (advancedDecisionEngine st (Some cs))) = HOLD
         \<and> d_reason (fst (advancedDecisionEngine st (Some cs)))
             = Text ''Extremely low volatility - no edge''
         \<and> confidence (fst (advancedDecisionEngine st (Some cs))) = 0
         \<and> (\<exists>ind. d_indicators (fst (advancedDecisionEngine st (Some cs))) = Some ind
                  \<and> i_volatility ind = calcVolatility (map close cs) 20
                  \<and> i_atr ind = None)"
proof -
  have "20 \<le> length (map close cs)" using assms(1) by simp
  from bollinger_upper_positive [OF this assms(3)]
  have u: "truthy (upper (calcBollinger (map close cs) 20 2 ! (length cs - 1)))" by simp
  show ?thesis
    unfolding low_volatility_snapshot [OF assms(1,2) u]
    using calcATR_latest_undefined [OF assms(1)] by simp
qed

text \<open>With 50 or more candles the band at the latest index is never \<open>null\<close>: the readiness
  check can only fire on an upper band that was computed and is \<open>0\<close>.\<close>

lemma upper_band_computed:
  "20 \<le> length vs \<Longrightarrow> \<exists>u. upper (calcBollinger vs 20 2 ! (length vs - 1)) = Some u"
  by (auto simp add: calcBollinger_def Let_def)

lemma fuse_ready_reason:
  "m14 = Some m \<Longrightarrow> truthy (upper bbN) \<Longrightarrow>
     d_reason (fuseAndDecide w rg wr vol price prev m14 m50 rsiN bbN macdN atrN pat mic)
       \<noteq> Text ''Indicators not ready''"
  by (simp add: fuseAndDecide_def lowVolatility_def decide_def Let_def split: prod.splits)

lemma not_ready_iff_zero_band:
  assumes "50 \<le> length cs"
  shows "(d_reason (fst (advancedDecisionEngine st (Some cs))) = Text ''Indicators not ready'')
         = (upper (calcBollinger (map close cs) 20 2 ! (length cs - 1)) = Some 0)"
proof -
  have "14 \<le> length (map close cs)" "map close cs \<noteq> []"
    using assms by auto
  from calcMA_latest_some [OF this]
  obtain x where m: "elem_at (calcMA (map close cs) 14) (length cs - 1) = Some x"
    by auto
  have "20 \<le> length (map close cs)" using assms by simp
  from upper_band_computed [OF this]
  obtain u where u: "upper (calcBollinger (map close cs) 20 2 ! (length cs - 1)) = Some u"
    by auto
  show ?thesis
  proof (cases "u = 0")
    case True
    have t: "\<not> truthy (upper (calcBollinger (map close cs) 20 2 ! (length cs - 1)))"
      unfolding u using True by (simp add: truthy_def)
    show ?thesis
      unfolding engine_eq [OF assms] fst_conv fuse_not_ready [OF disjI2 [OF t]] u
      using True by (simp add: indicatorsNotReady_def)
  next
    case False
    have t: "truthy (upper (calcBollinger (map close cs) 20 2 ! (length cs - 1)))"
      unfolding u using False by (simp add: truthy_def)
    show ?thesis
      unfolding engine_eq [OF assms] fst_conv u
      using fuse_ready_reason [OF m t] False by simp
  qed
qed

lemma regime_zero:
  "r_type (detectMarketRegime (flatCandles 0)) = NEUTRAL"
  "r_volatility (detectMarketRegime (flatCandles 0)) = NaN"
  by (simp_all add: detectMarketRegime_def length_flat Let_def closes_flat vol_flat
      length_calcMA ma_flat trendStrengthOf_def js_div_def classifyRegime_def js_gt_def
      js_lt_def)

text \<open>
  \<^bold>\<open>Claim C4\<close> (50 or more candles whose raw 20-period deviation is below 0.002 always give
  the low-volatility HOLD, with the computed indicator snapshot). The readiness check
  before the gate tests the upper Bollinger band for truthiness, not against \<open>null\<close>: on 50
  candles whose prices are all \<open>0\<close> the deviation is \<open>0\<close>, the computed upper band is \<open>0\<close>, and
  the engine returns "Indicators not ready" with no snapshot (the regime stored on the way
  is NEUTRAL, its volatility \<open>NaN\<close>). And where the gate does return its HOLD, as on 50
  candles whose prices are all \<open>100\<close>, the \<open>atr\<close> entry of the snapshot holds no number.
\<close>

theorem low_volatility_gate_zero_band:
  "50 \<le> length (flatCandles 0)
   \<and> calcVolatility (map close (flatCandles 0)) 20 < 0.002
   \<and> upper (calcBollinger (map close (flatCandles 0)) 20 2 ! (length (flatCandles 0) - 1))
       = Some 0
   \<and> fst (advancedDecisionEngine st (Some (flatCandles 0))) =
       \<lparr>d_action = HOLD, d_reason = Text ''Indicators not ready'', confidence = 0,
        compositeSignal = None, d_indicators = None, d_regime = None, d_weights = None\<rparr>
   \<and> d_reason (fst (advancedDecisionEngine st (Some (flatCandles 0))))
       \<noteq> Text ''Extremely low volatility - no edge''
   \<and> r_type (marketRegime (snd (advancedDecisionEngine st (Some (flatCandles 0))))) = NEUTRAL
   \<and> fst (advancedDecisionEngine st (Some (flatCandles 100))) =
       lowVolatility
         \<lparr>ma14Now = Some 100, ma50Now = Some 100,
          rsiNow = rsiNowOf (calcRSI (replicate 50 100) 14) 49,
          bbNow = \<lparr>upper = Some 100, middle = Some 100, lower = Some 100\<rparr>,
          i_volatility = 0, i_atr = None, i_macd = None,
          i_pattern = identifyCandlestickPattern (flatCandles 100),
          microAnalysis = analyzeMicroStructure (tickBuffer st) (flatCandles 100 ! 49)\<rparr>"
proof -
  have n: "50 \<le> length (flatCandles 0)" by (simp add: length_flat)
  have u: "upper (calcBollinger (map close (flatCandles 0)) 20 2
                    ! (length (flatCandles 0) - 1)) = Some 0"
    by (simp add: length_flat closes_flat bb_flat)
  have t: "\<not> truthy (upper (calcBollinger (map close (flatCandles 0)) 20 2
                             ! (length (flatCandles 0) - 1)))"
    unfolding u by (simp add: truthy_def)
  have e: "fst (advancedDecisionEngine st (Some (flatCandles 0))) = indicatorsNotReady"
    unfolding engine_eq [OF n] fst_conv
    by (rule fuse_not_ready [OF disjI2 [OF t]])
  have r: "r_type (marketRegime (snd (advancedDecisionEngine st (Some (flatCandles 0)))))
             = NEUTRAL"
    unfolding engine_eq [OF n] snd_conv by (simp add: regime_zero)
  show ?thesis
    using n u r by (simp add: e closes_flat vol_flat indicatorsNotReady_def engine_flat)
qed


section \<open>Regime, weights and the process-wide state\<close>

lemma engine_insufficient:
  "arg = None \<or> (\<exists>cs. arg = Some cs \<and> length cs < 50) \<Longrightarrow>
     advancedDecisionEngine st arg = (insufficientData, st)"
  by (auto simp add: advancedDecisionEngine_def)

lemma engine_reason_insufficient:
  "d_reason (fst (advancedDecisionEngine st arg)) = Text ''Insufficient data'' \<Longrightarrow>
     arg = None \<or> (\<exists>cs. arg = Some cs \<and> length cs < 50)"
proof (cases arg)
  case None
  then show ?thesis by simp
next
  case (Some cs)
  assume r: "d_reason (fst (advancedDecisionEngine st arg)) = Text ''Insufficient data''"
  have "length cs < 50"
  proof (rule ccontr)
    assume "\<not> length cs < 50"
    then have n: "50 \<le> length cs" by simp
    show False
      using r fuse_reason unfolding Some engine_eq [OF n] fst_conv by blast
  qed
  with Some show ?thesis by simp
qed

lemma engine_reason_late:
  "d_reason (fst (advancedDecisionEngine st arg)) = Text ''Indicators not ready''
   \<or> d_reason (fst (advancedDecisionEngine st arg)) = Text ''Extremely low volatility - no edge''
   \<Longrightarrow> \<exists>cs. arg = Some cs \<and> 50 \<le> length cs"
  by (cases arg) (auto simp add: advancedDecisionEngine_def insufficientData_def split: if_splits)

lemma engine_state:
  "50 \<le> length cs \<Longrightarrow>
     marketRegime (snd (advancedDecisionEngine st (Some cs))) = detectMarketRegime cs
     \<and> indicatorWeights (snd (advancedDecisionEngine st (Some cs))) =
         updateIndicatorWeights (indicatorWeights st) (detectMarketRegime cs)
           (winRateOf (tradeHistory st))
     \<and> tickBuffer (snd (advancedDecisionEngine st (Some cs))) = tickBuffer st
     \<and> tradeHistory (snd (advancedDecisionEngine st (Some cs))) = tradeHistory st"
  by (simp add: engine_eq)

text \<open>With an empty stored trade history the win rate is exactly \<open>0.5\<close>; none of the four
  thresholds 0.65, 0.45, 0.6, 0.4 is crossed, so the weights after the cycle are what the
  regime \<open>switch\<close> alone leaves of the weights before it (no scaling), and the confidence
  of a decision that carries a composite signal is \<open>min(min(|signal| / 5, 1) *
  regime.confidence * (1.15 if pattern.strength > 0.7), 0.95)\<close>, with no performance
  factor.\<close>

lemma empty_history_general:
  assumes "tradeHistory st = []" and "50 \<le> length cs"
  shows "winRateOf (tradeHistory st) = 0.5
    \<and> \<not> winRateOf (tradeHistory st) > 0.65 \<and> \<not> winRateOf (tradeHistory st) < 0.45
    \<and> \<not> winRateOf (tradeHistory st) > 0.6 \<and> \<not> winRateOf (tradeHistory st) < 0.4
    \<and> indicatorWeights (snd (advancedDecisionEngine st (Some cs)))
        = regimeTable (r_type (detectMarketRegime cs)) (indicatorWeights st)
    \<and> (\<forall>c. compositeSignal (fst (advancedDecisionEngine st (Some cs))) = Some c \<longrightarrow>
          confidence (fst (advancedDecisionEngine st (Some cs))) =
            min (min (\<bar>c\<bar> / 5) 1 * r_confidence (detectMarketRegime cs)
                  * (if strength (identifyCandlestickPattern cs) > 0.7 then 1.15 else 1)) 0.95)"
proof -
  have w: "winRateOf (tradeHistory st) = 0.5" using assms(1) by (simp add: winRate_empty)
  have conf: "confidenceOf c rc ps (winRateOf (tradeHistory st))
      = min (min (\<bar>c\<bar> / 5) 1 * rc * (if ps > 0.7 then 1.15 else 1)) 0.95" for c rc ps
    unfolding w by (simp add: confidenceOf_def Let_def)
  have wts: "indicatorWeights (snd (advancedDecisionEngine st (Some cs)))
      = regimeTable (r_type (detectMarketRegime cs)) (indicatorWeights st)"
    unfolding engine_eq [OF assms(2)] snd_conv updateIndicatorWeights_def w
    by (simp add: Let_def)
  have "confidence (fst (advancedDecisionEngine st (Some cs))) =
            min (min (\<bar>c\<bar> / 5) 1 * r_confidence (detectMarketRegime cs)
                  * (if strength (identifyCandlestickPattern cs) > 0.7 then 1.15 else 1)) 0.95"
    if "compositeSignal (fst (advancedDecisionEngine st (Some cs))) = Some c" for c
    using fuse_conf [OF that [unfolded engine_eq [OF assms(2)] fst_conv]]
    unfolding engine_eq [OF assms(2)] fst_conv conf .
  moreover have "\<not> winRateOf (tradeHistory st) > 0.65" "\<not> winRateOf (tradeHistory st) < 0.45"
    "\<not> winRateOf (tradeHistory st) > 0.6" "\<not> winRateOf (tradeHistory st) < 0.4"
    unfolding w by simp_all
  ultimately show ?thesis using w wts by blast
qed

text \<open>The four keys the \<open>switch\<close> assigns are then the values of the table, whatever the
  weights were before.\<close>

lemma empty_history_four_keys:
  assumes "tradeHistory st = []" and "50 \<le> length cs"
  shows "w_ma (indicatorWeights (snd (advancedDecisionEngine st (Some cs))))
           = w_ma (regimeTable (r_type (detectMarketRegime cs)) initialWeights)
    \<and> w_rsi (indicatorWeights (snd (advancedDecisionEngine st (Some cs))))
           = w_rsi (regimeTable (r_type (detectMarketRegime cs)) initialWeights)
    \<and> w_bb (indicatorWeights (snd (advancedDecisionEngine st (Some cs))))
           = w_bb (regimeTable (r_type (detectMarketRegime cs)) initialWeights)
    \<and> w_momentum (indicatorWeights (snd (advancedDecisionEngine st (Some cs))))
           = w_momentum (regimeTable (r_type (detectMarketRegime cs)) initialWeights)"
  using empty_history_general [OF assms] by (simp add: regimeTable_def)

text \<open>
  \<^bold>\<open>Claim C9\<close> (with an empty trade history the win rate is 0.5, no scaling and no
  performance adjustment fires, and the weights equal the pure regime-table values). The
  win rate, the thresholds, the confidence and the four keys \<open>ma\<close>, \<open>rsi\<close>, \<open>bb\<close>, \<open>momentum\<close>
  are as said (the lemmas above). The fifth weight is not: under the three regimes of the
  table \<open>volume\<close> keeps what earlier cycles left in it. From the state whose weights carry
  \<open>volume = 1.1\<close> and whose history has been cleared, a cycle on 50 flat candles (regime
  CONSOLIDATION) leaves \<open>volume = 1.1\<close>; from the initial state the same cycle leaves
  \<open>volume = 1\<close>, the value of the table.
\<close>

theorem empty_history_volume_carried_over:
  "tradeHistory clearedState = []
   \<and> winRateOf (tradeHistory clearedState) = 0.5
   \<and> r_type (detectMarketRegime (flatCandles 100)) = CONSOLIDATION
   \<and> indicatorWeights (snd (advancedDecisionEngine clearedState (Some (flatCandles 100))))
       = \<lparr>w_ma = 0.6, w_rsi = 1.4, w_bb = 1.3, w_momentum = 0.5, w_volume = 1.1\<rparr>
   \<and> tradeHistory initialState = []
   \<and> indicatorWeights (snd (advancedDecisionEngine initialState (Some (flatCandles 100))))
       = \<lparr>w_ma = 0.6, w_rsi = 1.4, w_bb = 1.3, w_momentum = 0.5, w_volume = 1\<rparr>"
proof -
  have n: "50 \<le> length (flatCandles 100)" by (simp add: length_flat)
  have h: "tradeHistory clearedState = []" "tradeHistory initialState = []"
    by (simp_all add: clearedState_def initialState_def)
  show ?thesis
    using empty_history_general [OF h(1) n] empty_history_general [OF h(2) n] h
    by (simp add: regime_flat regimeTable_def clearedState_def otherState_def
        initialState_def initialWeights_def)
qed

text \<open>
  \<^bold>\<open>Claim C10\<close>: the insufficient-data return (a missing sequence, or fewer than 50
  candles) leaves the whole process-wide state as it was, the regime and the weights
  included; a return with the reason "Indicators not ready" or "Extremely low volatility -
  no edge" happens only with 50 or more candles, after \<open>marketRegime\<close> has been replaced by
  the regime of the current candles and \<open>indicatorWeights\<close> by the weights updated for it.
\<close>

theorem engine_state_frame:
  "((arg = None \<or> (\<exists>cs. arg = Some cs \<and> length cs < 50)) \<longrightarrow>
      advancedDecisionEngine st arg = (insufficientData, st))
   \<and> (d_reason (fst (advancedDecisionEngine st arg)) = Text ''Insufficient data'' \<longrightarrow>
        marketRegime (snd (advancedDecisionEngine st arg)) = marketRegime st
        \<and> indicatorWeights (snd (advancedDecisionEngine st arg)) = indicatorWeights st)
   \<and> (\<forall>cs. arg = Some cs
          \<and> (d_reason (fst (advancedDecisionEngine st arg)) = Text ''Indicators not ready''
             \<or> d_reason (fst (advancedDecisionEngine st arg))
                 = Text ''Extremely low volatility - no edge'') \<longrightarrow>
        marketRegime (snd (advancedDecisionEngine st arg)) = detectMarketRegime cs
        \<and> indicatorWeights (snd (advancedDecisionEngine st arg)) =
            updateIndicatorWeights (indicatorWeights st) (detectMarketRegime cs)
              (winRateOf (tradeHistory st)))"
proof (intro conjI impI allI)
  assume "arg = None \<or> (\<exists>cs. arg = Some cs \<and> length cs < 50)"
  then show "advancedDecisionEngine st arg = (insufficientData, st)"
    by (rule engine_insufficient)
next
  assume r: "d_reason (fst (advancedDecisionEngine st arg)) = Text ''Insufficient data''"
  have e: "advancedDecisionEngine st arg = (insufficientData, st)"
    by (rule engine_insufficient [OF engine_reason_insufficient [OF r]])
  show "marketRegime (snd (advancedDecisionEngine st arg)) = marketRegime st"
    unfolding e by simp
  show "indicatorWeights (snd (advancedDecisionEngine st arg)) = indicatorWeights st"
    unfolding e by simp
next
  fix cs
  assume a: "arg = Some cs
          \<and> (d_reason (fst (advancedDecisionEngine st arg)) = Text ''Indicators not ready''
             \<or> d_reason (fst (advancedDecisionEngine st arg))
                 = Text ''Extremely low volatility - no edge'')"
  then have n: "50 \<le> length cs" using engine_reason_late [of st arg] by auto
  show "marketRegime (snd (advancedDecisionEngine st arg)) = detectMarketRegime cs"
    using a engine_state [OF n, of st] by simp
  show "indicatorWeights (snd (advancedDecisionEngine st arg)) =
            updateIndicatorWeights (indicatorWeights st) (detectMarketRegime cs)
              (winRateOf (tradeHistory st))"
    using a engine_state [OF n, of st] by simp
qed

theorem engine_state_frame_witness:
  "length (replicate 49 (flatCandle 100)) < 50
   \<and> advancedDecisionEngine otherState (Some (replicate 49 (flatCandle 100)))
       = (insufficientData, otherState)
   \<and> d_reason (fst (advancedDecisionEngine initialState (Some (flatCandles 100))))
       = Text ''Extremely low volatility - no edge''
   \<and> r_type (marketRegime initialState) = UNKNOWN
   \<and> r_type (marketRegime (snd (advancedDecisionEngine initialState (Some (flatCandles 100)))))
       = CONSOLIDATION
   \<and> indicatorWeights (snd (advancedDecisionEngine initialState (Some (flatCandles 100))))
       = \<lparr>w_ma = 0.6, w_rsi = 1.4, w_bb = 1.3, w_momentum = 0.5, w_volume = 1\<rparr>"
proof -
  have a: "Some (replicate 49 (flatCandle 100)) = None
           \<or> (\<exists>cs. Some (replicate 49 (flatCandle 100)) = Some cs \<and> length cs < 50)"
    by simp
  have r: "d_reason (fst (advancedDecisionEngine initialState (Some (flatCandles 100))))
             = Text ''Extremely low volatility - no edge''"
    by (simp add: engine_flat lowVolatility_def)
  have i: "indicatorWeights initialState = initialWeights" "tradeHistory initialState = []"
    "r_type (marketRegime initialState) = UNKNOWN"
    by (simp_all add: initialState_def initialRegime_def)
  have 1: "advancedDecisionEngine otherState (Some (replicate 49 (flatCandle 100)))
       = (insufficientData, otherState)"
    using engine_state_frame [of "Some (replicate 49 (flatCandle 100))" otherState] a by blast
  have 2: "marketRegime (snd (advancedDecisionEngine initialState (Some (flatCandles 100))))
             = detectMarketRegime (flatCandles 100)
           \<and> indicatorWeights (snd (advancedDecisionEngine initialState (Some (flatCandles 100))))
             = updateIndicatorWeights (indicatorWeights initialState)
                 (detectMarketRegime (flatCandles 100)) (winRateOf (tradeHistory initialState))"
    using engine_state_frame [of "Some (flatCandles 100)" initialState] r by blast
  show ?thesis
    using 1 2 r i by (simp add: regime_flat weights_flat)
qed

end
